theory Spec2Isabelle
  imports Complex_Main "HOL-Library.Sublist"
begin

section \<open>The JavaScript fragment used by \<open>TwitterOutreachStrategy\<close>\<close>

text \<open>
  The class \<open>TwitterOutreachStrategy\<close> (required as utils/twitter-outreach-strategy; its
  text follows the guide in lead-generation-dm-system/TROUBLESHOOTING-GITHUB-ACTIONS.md) is
  embedded function by function. A JavaScript string is a list of code units; the model covers the
  code units below 256, one \<^typ>\<open>char\<close> each. A property that is absent from an object
  (\<open>undefined\<close>) is \<^const>\<open>None\<close>. An evaluation either returns a value (\<^const>\<open>Inr\<close>) or
  throws (\<^const>\<open>Inl\<close>); the only exception these methods can throw is a \<open>TypeError\<close>.
\<close>

datatype js_error = TypeError

text \<open>\<open>m\<close> is evaluated first; when it throws, the rest is not evaluated.\<close>

definition bindE :: "js_error + 'a \<Rightarrow> ('a \<Rightarrow> js_error + 'b) \<Rightarrow> js_error + 'b" where
  "bindE m f = (case m of Inl e \<Rightarrow> Inl e | Inr v \<Rightarrow> f v)"

text \<open>
  Truthiness of \<open>a && b\<close> and of \<open>a || b\<close>: the right operand is evaluated (and can
  throw) only when the left one does not decide the result.
\<close>

definition js_and :: "js_error + bool \<Rightarrow> js_error + bool \<Rightarrow> js_error + bool" where
  "js_and a b = bindE a (\<lambda>x. if x then b else Inr False)"

definition js_or :: "js_error + bool \<Rightarrow> js_error + bool \<Rightarrow> js_error + bool" where
  "js_or a b = bindE a (\<lambda>x. if x then Inr True else b)"

definition js_not :: "js_error + bool \<Rightarrow> js_error + bool" where
  "js_not a = bindE a (\<lambda>x. Inr (\<not> x))"

text \<open>\<open>x.length\<close>: reading a property of \<open>undefined\<close> throws.\<close>

definition get_length :: "'a list option \<Rightarrow> js_error + nat" where
  "get_length x = (case x of None \<Rightarrow> Inl TypeError | Some xs \<Rightarrow> Inr (length xs))"

text \<open>\<open>xs.some(f)\<close> on an array: stops at the first element on which \<open>f\<close> is truthy.\<close>

fun array_some :: "('a \<Rightarrow> js_error + bool) \<Rightarrow> 'a list \<Rightarrow> js_error + bool" where
  "array_some f [] = Inr False"
| "array_some f (x # xs) = bindE (f x) (\<lambda>b. if b then Inr True else array_some f xs)"

text \<open>\<open>x.some(f)\<close>: calling a method of \<open>undefined\<close> throws.\<close>

definition get_some :: "'a list option \<Rightarrow> ('a \<Rightarrow> js_error + bool) \<Rightarrow> js_error + bool" where
  "get_some x f = (case x of None \<Rightarrow> Inl TypeError | Some xs \<Rightarrow> array_some f xs)"

text \<open>Truthiness of a string (\<open>undefined\<close> and the empty string are falsy), of an
  object, array or \<open>Date\<close> (falsy only when absent) and of a boolean.\<close>

definition truthy_string :: "string option \<Rightarrow> bool" where
  "truthy_string x = (case x of None \<Rightarrow> False | Some s \<Rightarrow> s \<noteq> [])"

definition truthy_object :: "'a option \<Rightarrow> bool" where
  "truthy_object x = (case x of None \<Rightarrow> False | Some v \<Rightarrow> True)"

definition truthy_bool :: "bool option \<Rightarrow> bool" where
  "truthy_bool x = (case x of None \<Rightarrow> False | Some b \<Rightarrow> b)"

subsection \<open>Numbers\<close>

text \<open>
  The numbers read from a lead (follower count, like and comment counts, timestamps in
  milliseconds) are integers; \<open>undefined\<close> converts to \<open>NaN\<close>. The only quotient formed is
  a sum of like counts by a positive follower count, compared with \<open>0.5\<close> or \<open>1.0\<close>; both
  bounds are binary fractions and IEEE division rounds monotonically, so on integers below
  \<open>2^53\<close> the comparison of the rounded quotient agrees with the comparison of the exact one.
\<close>

datatype js_num = NaN | Num real | Infinity | Neg_Infinity

definition to_num :: "int option \<Rightarrow> js_num" where
  "to_num x = (case x of None \<Rightarrow> NaN | Some i \<Rightarrow> Num (real_of_int i))"

fun js_lt :: "js_num \<Rightarrow> js_num \<Rightarrow> bool" where
  "js_lt (Num a) (Num b) = (a < b)"
| "js_lt (Num a) Infinity = True"
| "js_lt Neg_Infinity (Num b) = True"
| "js_lt Neg_Infinity Infinity = True"
| "js_lt a b = False"

fun js_le :: "js_num \<Rightarrow> js_num \<Rightarrow> bool" where
  "js_le NaN b = False"
| "js_le a NaN = False"
| "js_le a b = (a = b \<or> js_lt a b)"

definition js_gt :: "js_num \<Rightarrow> js_num \<Rightarrow> bool" where
  "js_gt a b = js_lt b a"

definition js_ge :: "js_num \<Rightarrow> js_num \<Rightarrow> bool" where
  "js_ge a b = js_le b a"

fun js_div :: "js_num \<Rightarrow> js_num \<Rightarrow> js_num" where
  "js_div (Num a) (Num b) =
     (if b \<noteq> 0 then Num (a / b)
      else if a = 0 then NaN else if 0 < a then Infinity else Neg_Infinity)"
| "js_div (Num a) Infinity = Num 0"
| "js_div (Num a) Neg_Infinity = Num 0"
| "js_div Infinity (Num b) = (if 0 \<le> b then Infinity else Neg_Infinity)"
| "js_div Neg_Infinity (Num b) = (if 0 \<le> b then Neg_Infinity else Infinity)"
| "js_div a b = NaN"

subsection \<open>Strings\<close>

text \<open>
  Among the code units below 256 the upper-case letters are \<open>A\<close> to \<open>Z\<close> (65 to 90)
  and the accented capitals 192 to 222 without the multiplication sign 215; the lower-case
  form of each is 32 higher.
\<close>

definition toLowerCase_unit :: "char \<Rightarrow> char" where
  "toLowerCase_unit c =
     (let n = (of_char c :: int)
      in if (65 \<le> n \<and> n \<le> 90) \<or> (192 \<le> n \<and> n \<le> 222 \<and> n \<noteq> 215)
         then char_of (n + 32) else c)"

definition toLowerCase :: "string \<Rightarrow> string" where
  "toLowerCase s = map toLowerCase_unit s"

text \<open>\<open>s.includes(t)\<close>: \<open>t\<close> occurs in \<open>s\<close> as a contiguous substring.\<close>

fun str_includes :: "string \<Rightarrow> string \<Rightarrow> bool" where
  "str_includes [] t = (t = [])"
| "str_includes (c # cs) t = (prefix t (c # cs) \<or> str_includes cs t)"

text \<open>\<open>x?.toLowerCase().includes(keyword)\<close>: the optional chain yields \<open>undefined\<close>
  (falsy) when \<open>x\<close> is absent.\<close>

definition opt_lower_includes :: "string option \<Rightarrow> string \<Rightarrow> bool" where
  "opt_lower_includes x keyword =
     (case x of None \<Rightarrow> False | Some s \<Rightarrow> str_includes (toLowerCase s) keyword)"

section \<open>Leads and quota snapshots\<close>

text \<open>
  A lead is a plain object; every property the strategy reads may be absent. The fields
  are those of the leads built in test-conservative-twitter-outreach.js. \<open>lastActivity\<close>
  is a \<open>Date\<close>, whose time value is a number of milliseconds or \<open>NaN\<close> (an invalid date).
  The property \<open>keywords\<close> is the field \<open>lead_keywords\<close>, \<open>text\<close> and \<open>engagement\<close> of a
  tweet are \<open>tweet_text\<close> and \<open>tweet_engagement\<close>.
\<close>

record engagement =
  likes :: "int option"
  comments :: "int option"

record tweet =
  tweet_text :: "string option"
  tweet_engagement :: "engagement option"

datatype js_date = Invalid_Date | Date int

record lead =
  username :: "string option"
  bio :: "string option"
  lead_keywords :: "string list option"
  recentTweets :: "tweet list option"
  lastActivity :: "js_date option"
  followerCount :: "int option"
  hasEngagedWithUs :: "bool option"
  mutualConnections :: "string list option"

text \<open>One entry of the object returned by \<open>getRemainingQuota\<close>, and the snapshot.\<close>

record quota_entry =
  remaining :: int
  used :: int
  limit :: int

record apiQuota =
  userLookup :: quota_entry
  tweetLookup :: quota_entry
  follow :: quota_entry
  like :: quota_entry
  dmSend :: quota_entry

text \<open>\<open>this.targetingCriteria\<close>, as set by the constructor.\<close>

definition minFollowers :: int where "minFollowers = 100"
definition maxFollowers :: int where "maxFollowers = 50000"
definition minEngagement :: real where "minEngagement = 0.5"
definition recentActivity :: int where "recentActivity = 7"

definition relevantKeywords :: "string list" where
  "relevantKeywords =
     [''AI'', ''automation'', ''SaaS'', ''marketing'', ''sales'', ''growth'', ''startup'', ''tech'']"

definition excludeKeywords :: "string list" where
  "excludeKeywords = [''spam'', ''bot'', ''fake'', ''buy followers'']"

text \<open>\<open>new Date() - new Date(d)\<close>, where \<open>now\<close> is the clock reading of \<open>new Date()\<close>.\<close>

definition date_diff :: "int \<Rightarrow> js_date \<Rightarrow> js_num" where
  "date_diff now d = (case d of Invalid_Date \<Rightarrow> NaN | Date t \<Rightarrow> Num (real_of_int (now - t)))"

text \<open>\<open>x && (new Date() - new Date(x)) < days * 24 * 60 * 60 * 1000\<close>\<close>

definition active_within :: "int \<Rightarrow> js_date option \<Rightarrow> int \<Rightarrow> bool" where
  "active_within now x days =
     (case x of None \<Rightarrow> False
      | Some d \<Rightarrow> js_lt (date_diff now d) (Num (real_of_int (days * 24 * 60 * 60 * 1000))))"

text \<open>\<open>tweet.engagement?.likes || 0\<close>: an absent or zero like count gives \<open>0\<close>.\<close>

definition likes_or_0 :: "tweet \<Rightarrow> int" where
  "likes_or_0 tweet =
     (case tweet_engagement tweet of None \<Rightarrow> 0
      | Some e \<Rightarrow> (case likes e of None \<Rightarrow> 0 | Some n \<Rightarrow> n))"

text \<open>\<open>x?.reduce((total, tweet) => total + (tweet.engagement?.likes || 0), 0)\<close>\<close>

definition reduce_likes :: "tweet list option \<Rightarrow> int option" where
  "reduce_likes x = map_option (foldl (\<lambda>total tweet. total + likes_or_0 tweet) 0) x"

text \<open>\<open>lead.followerCount > 0 && (lead.recentTweets?.reduce(...) / lead.followerCount) >= bound\<close>\<close>

definition engagement_rate_at_least :: "lead \<Rightarrow> real \<Rightarrow> bool" where
  "engagement_rate_at_least lead bound =
     (js_gt (to_num (followerCount lead)) (Num 0) \<and>
      js_ge (js_div (to_num (reduce_likes (recentTweets lead))) (to_num (followerCount lead)))
        (Num bound))"

text \<open>\<open>Object.values(criteria).every(Boolean)\<close> and
  \<open>Object.values(criteria).filter(Boolean).length\<close>, on the truth values of the criteria.\<close>

definition every_Boolean :: "bool list \<Rightarrow> bool" where
  "every_Boolean cs = list_all (\<lambda>c. c) cs"

definition metCriteria :: "bool list \<Rightarrow> nat" where
  "metCriteria cs = length (filter (\<lambda>c. c) cs)"

section \<open>Qualification predicates\<close>

subsection \<open>\<open>isWorthResearching\<close>\<close>

definition hasUsername :: "lead \<Rightarrow> js_error + bool" where
  "hasUsername lead =
     js_and (Inr (truthy_string (username lead)))
       (bindE (get_length (username lead)) (\<lambda>n. Inr (0 < n)))"

definition noSpamKeywords :: "lead \<Rightarrow> js_error + bool" where
  "noSpamKeywords lead =
     js_not (array_some (\<lambda>keyword.
        js_or (Inr (opt_lower_includes (username lead) keyword))
              (Inr (opt_lower_includes (bio lead) keyword))) excludeKeywords)"

definition hasRelevantKeywords :: "lead \<Rightarrow> js_error + bool" where
  "hasRelevantKeywords lead =
     js_and (Inr (truthy_object (lead_keywords lead)))
       (get_some (lead_keywords lead) (\<lambda>keyword.
          array_some (\<lambda>relevant.
            Inr (str_includes (toLowerCase keyword) (toLowerCase relevant))) relevantKeywords))"

definition isWorthResearching :: "lead \<Rightarrow> js_error + bool" where
  "isWorthResearching lead =
     bindE (hasUsername lead) (\<lambda>c1.
     bindE (noSpamKeywords lead) (\<lambda>c2.
     bindE (hasRelevantKeywords lead) (\<lambda>c3.
     Inr (every_Boolean [c1, c2, c3]))))"

subsection \<open>\<open>isWorthEngaging\<close>\<close>

definition hasRecentActivity :: "lead \<Rightarrow> js_error + bool" where
  "hasRecentActivity lead =
     js_and (Inr (truthy_object (recentTweets lead)))
       (bindE (get_length (recentTweets lead)) (\<lambda>n. Inr (0 < n)))"

text \<open>\<open>tweet.engagement && (tweet.engagement.likes > 3 || tweet.engagement.comments > 0)\<close>;
  reading \<open>likes\<close> of an absent \<open>engagement\<close> would throw.\<close>

definition get_likes :: "engagement option \<Rightarrow> js_error + int option" where
  "get_likes x = (case x of None \<Rightarrow> Inl TypeError | Some e \<Rightarrow> Inr (likes e))"

definition get_comments :: "engagement option \<Rightarrow> js_error + int option" where
  "get_comments x = (case x of None \<Rightarrow> Inl TypeError | Some e \<Rightarrow> Inr (comments e))"

definition tweet_has_engagement :: "tweet \<Rightarrow> js_error + bool" where
  "tweet_has_engagement tweet =
     js_and (Inr (truthy_object (tweet_engagement tweet)))
       (js_or (bindE (get_likes (tweet_engagement tweet)) (\<lambda>l. Inr (js_gt (to_num l) (Num 3))))
              (bindE (get_comments (tweet_engagement tweet)) (\<lambda>c. Inr (js_gt (to_num c) (Num 0)))))"

text \<open>The truth value that \<open>tweet_has_engagement\<close> returns.\<close>

definition engaged_tweet :: "tweet \<Rightarrow> bool" where
  "engaged_tweet tweet =
     (case tweet_engagement tweet of None \<Rightarrow> False
      | Some e \<Rightarrow> js_gt (to_num (likes e)) (Num 3) \<or> js_gt (to_num (comments e)) (Num 0))"

definition goodEngagement :: "lead \<Rightarrow> js_error + bool" where
  "goodEngagement lead =
     js_and (Inr (truthy_object (recentTweets lead)))
       (get_some (recentTweets lead) tweet_has_engagement)"

definition relevantContent :: "lead \<Rightarrow> js_error + bool" where
  "relevantContent lead =
     js_and (Inr (truthy_object (lead_keywords lead)))
       (bindE (get_length (lead_keywords lead)) (\<lambda>n. Inr (0 < n)))"

definition activeUser :: "int \<Rightarrow> lead \<Rightarrow> js_error + bool" where
  "activeUser now lead = Inr (active_within now (lastActivity lead) recentActivity)"

definition reasonableFollowerCount :: "lead \<Rightarrow> js_error + bool" where
  "reasonableFollowerCount lead =
     Inr (js_ge (to_num (followerCount lead)) (Num (real_of_int minFollowers)) \<and>
          js_le (to_num (followerCount lead)) (Num (real_of_int maxFollowers)))"

definition goodEngagementRate :: "lead \<Rightarrow> js_error + bool" where
  "goodEngagementRate lead = Inr (engagement_rate_at_least lead minEngagement)"

definition isWorthEngaging :: "int \<Rightarrow> lead \<Rightarrow> js_error + bool" where
  "isWorthEngaging now lead =
     bindE (hasRecentActivity lead) (\<lambda>c1.
     bindE (goodEngagement lead) (\<lambda>c2.
     bindE (relevantContent lead) (\<lambda>c3.
     bindE (activeUser now lead) (\<lambda>c4.
     bindE (reasonableFollowerCount lead) (\<lambda>c5.
     bindE (goodEngagementRate lead) (\<lambda>c6.
     Inr (3 \<le> metCriteria [c1, c2, c3, c4, c5, c6])))))))"

subsection \<open>\<open>isHighlyQualified\<close>\<close>

definition engagedWithUs :: "lead \<Rightarrow> js_error + bool" where
  "engagedWithUs lead = js_or (Inr (truthy_bool (hasEngagedWithUs lead))) (Inr False)"

definition hasMutualConnections :: "lead \<Rightarrow> js_error + bool" where
  "hasMutualConnections lead =
     js_and (Inr (truthy_object (mutualConnections lead)))
       (bindE (get_length (mutualConnections lead)) (\<lambda>n. Inr (0 < n)))"

definition highEngagementRate :: "lead \<Rightarrow> js_error + bool" where
  "highEngagementRate lead = Inr (engagement_rate_at_least lead 1.0)"

definition veryRecentActivity :: "int \<Rightarrow> lead \<Rightarrow> js_error + bool" where
  "veryRecentActivity now lead = Inr (active_within now (lastActivity lead) 3)"

definition perfectKeywords :: "string list" where
  "perfectKeywords = [''AI'', ''automation'', ''SaaS'']"

definition perfectMatch :: "lead \<Rightarrow> js_error + bool" where
  "perfectMatch lead =
     js_and (Inr (truthy_object (lead_keywords lead)))
       (get_some (lead_keywords lead) (\<lambda>keyword.
          array_some (\<lambda>perfect.
            Inr (str_includes (toLowerCase keyword) (toLowerCase perfect))) perfectKeywords))"

definition isHighlyQualified :: "int \<Rightarrow> lead \<Rightarrow> js_error + bool" where
  "isHighlyQualified now lead =
     bindE (engagedWithUs lead) (\<lambda>c1.
     bindE (hasMutualConnections lead) (\<lambda>c2.
     bindE (highEngagementRate lead) (\<lambda>c3.
     bindE (veryRecentActivity now lead) (\<lambda>c4.
     bindE (perfectMatch lead) (\<lambda>c5.
     Inr (2 \<le> metCriteria [c1, c2, c3, c4, c5]))))))"

section \<open>The outreach sequence\<close>

text \<open>A step of the sequence, as the object literals pushed by \<open>getOutreachSequence\<close>.\<close>

record step =
  action :: string
  priority :: nat
  reason :: string
  apiCost :: string

definition research_step :: step where
  "research_step = \<lparr>action = ''research'', priority = 1,
     reason = ''Gather data for qualification'', apiCost = ''low''\<rparr>"

definition follow_step :: step where
  "follow_step = \<lparr>action = ''follow'', priority = 2,
     reason = ''Build relationship first (conservative approach)'', apiCost = ''medium''\<rparr>"

definition like_step :: step where
  "like_step = \<lparr>action = ''like'', priority = 3,
     reason = ''Show appreciation for recent content'', apiCost = ''medium''\<rparr>"

definition dm_step :: step where
  "dm_step = \<lparr>action = ''dmSend'', priority = 4,
     reason = ''Direct outreach only to highly qualified leads'', apiCost = ''high''\<rparr>"

text \<open>Step 1: research, if there is quota.\<close>

definition push_research :: "lead \<Rightarrow> apiQuota \<Rightarrow> step list \<Rightarrow> js_error + step list" where
  "push_research lead q sequence =
     bindE (js_and (Inr (0 < remaining (userLookup q))) (isWorthResearching lead)) (\<lambda>c.
       Inr (if c then sequence @ [research_step] else sequence))"

text \<open>Step 2: follow, and like when there is recent content; \<open>now\<close> is the clock
  reading taken by \<open>isWorthEngaging\<close>.\<close>

definition push_engagement ::
  "int \<Rightarrow> lead \<Rightarrow> apiQuota \<Rightarrow> step list \<Rightarrow> js_error + step list" where
  "push_engagement now lead q sequence =
     bindE (js_and (Inr (0 < remaining (follow q)))
             (js_and (Inr (0 < remaining (like q))) (isWorthEngaging now lead))) (\<lambda>c.
       if c then
         bindE (js_and (Inr (truthy_object (recentTweets lead)))
                 (js_and (bindE (get_length (recentTweets lead)) (\<lambda>n. Inr (0 < n)))
                         (Inr (0 < remaining (like q))))) (\<lambda>c'.
           Inr (if c' then (sequence @ [follow_step]) @ [like_step]
                else sequence @ [follow_step]))
       else Inr sequence)"

text \<open>Step 3: the direct message; \<open>now\<close> is the clock reading taken by
  \<open>isHighlyQualified\<close>.\<close>

definition push_dm :: "int \<Rightarrow> lead \<Rightarrow> apiQuota \<Rightarrow> step list \<Rightarrow> js_error + step list" where
  "push_dm now lead q sequence =
     bindE (js_and (Inr (0 < remaining (dmSend q)))
             (js_and (isHighlyQualified now lead) (Inr (2 \<le> length sequence)))) (\<lambda>c.
       Inr (if c then sequence @ [dm_step] else sequence))"

text \<open>\<open>getOutreachSequence(lead, apiQuota)\<close>; the clock is read once by
  \<open>isWorthEngaging\<close> (\<open>now\<close>) and once, later, by \<open>isHighlyQualified\<close> (\<open>now'\<close>).\<close>

definition getOutreachSequence ::
  "int \<Rightarrow> int \<Rightarrow> lead \<Rightarrow> apiQuota \<Rightarrow> js_error + step list" where
  "getOutreachSequence now now' lead q =
     bindE (push_research lead q []) (\<lambda>s1.
     bindE (push_engagement now lead q s1) (\<lambda>s2.
     push_dm now' lead q s2))"

section \<open>Message templates\<close>

text \<open>\<open>this.dmTemplates\<close>, as set by the constructor.\<close>

definition initial_template :: string where
  "initial_template = ''Hi {{username}}! Loved your thread about {{threadTopic}}. Your point about {{specificInsight}} really resonated. I'm building {{solution}} and think you might find {{value}} interesting. Would you be open to a quick chat?''"

definition followUp_template :: string where
  "followUp_template = ''Hi {{username}}! Just wanted to follow up on my previous message about {{topic}}. No pressure, but I'd love to share some insights that might be valuable for your work. Cheers!''"

definition warm_template :: string where
  "warm_template = ''Hi {{username}}! Thanks for the follow back. I noticed your recent post about {{recentTopic}} - really insightful! I'm working on similar {{solution}} initiatives and would love to connect. Best regards!''"

text \<open>The text of the \<open>initial\<close> template around its five placeholders.\<close>

definition initial_message :: "string \<Rightarrow> string \<Rightarrow> string \<Rightarrow> string \<Rightarrow> string \<Rightarrow> string" where
  "initial_message u t i s v =
     ''Hi '' @ u @ ''! Loved your thread about '' @ t @ ''. Your point about '' @ i @
     '' really resonated. I'm building '' @ s @ '' and think you might find '' @ v @
     '' interesting. Would you be open to a quick chat?''"

text \<open>
  \<open>this.dmTemplates[type]\<close> is a property lookup on an object literal: an own property
  gives its template, a property inherited from \<open>Object.prototype\<close> gives a function (or,
  for \<open>__proto__\<close>, the prototype object), any other name gives \<open>undefined\<close>.
\<close>

datatype js_prop = Undefined | Str string | Inherited

definition Object_prototype_properties :: "string list" where
  "Object_prototype_properties =
     [''constructor'', ''__defineGetter__'', ''__defineSetter__'', ''hasOwnProperty'',
      ''__lookupGetter__'', ''__lookupSetter__'', ''isPrototypeOf'', ''propertyIsEnumerable'',
      ''toString'', ''valueOf'', ''__proto__'', ''toLocaleString'']"

definition dmTemplates :: "string \<Rightarrow> js_prop" where
  "dmTemplates type =
     (if type = ''initial'' then Str initial_template
      else if type = ''followUp'' then Str followUp_template
      else if type = ''warm'' then Str warm_template
      else if type \<in> set Object_prototype_properties then Inherited
      else Undefined)"

subsection \<open>\<open>String.prototype.replace\<close>\<close>

text \<open>
  The replacement text of \<open>replace\<close> is a template: \<open>$$\<close> inserts a dollar sign, \<open>$&\<close>
  the matched text, \<open>$`\<close> the text preceding the match and \<open>$'\<close> the text following it. The
  patterns used here have no capture groups, so \<open>$1\<close> and the like stay as they are.
\<close>

fun getSubstitution :: "string \<Rightarrow> string \<Rightarrow> string \<Rightarrow> string \<Rightarrow> string" where
  "getSubstitution matched preceding following (c # d # rest) =
     (if c = CHR ''$'' \<and> d = CHR ''$''
      then CHR ''$'' # getSubstitution matched preceding following rest
      else if c = CHR ''$'' \<and> d = CHR ''&''
      then matched @ getSubstitution matched preceding following rest
      else if c = CHR ''$'' \<and> d = CHR 0x60
      then preceding @ getSubstitution matched preceding following rest
      else if c = CHR ''$'' \<and> d = CHR 0x27
      then following @ getSubstitution matched preceding following rest
      else c # getSubstitution matched preceding following (d # rest))"
| "getSubstitution matched preceding following rest = rest"

text \<open>
  \<open>s.replace(pat, rep)\<close> with a string pattern replaces the first occurrence only.
  The search has reached position \<open>i\<close> of \<open>s\<close>; the rest of \<open>s\<close> from there is the
  last argument, and \<open>take i s\<close> is the text preceding a match found there.
\<close>

fun replace_first :: "string \<Rightarrow> string \<Rightarrow> string \<Rightarrow> nat \<Rightarrow> string \<Rightarrow> string" where
  "replace_first pat rep s i [] =
     (if pat = [] then getSubstitution pat (take i s) [] rep else [])"
| "replace_first pat rep s i (c # cs) =
     (if prefix pat (c # cs)
      then getSubstitution pat (take i s) (drop (length pat) (c # cs)) rep @
           drop (length pat) (c # cs)
      else c # replace_first pat rep s (Suc i) cs)"

definition js_replace :: "string \<Rightarrow> string \<Rightarrow> string \<Rightarrow> string" where
  "js_replace s pat rep = replace_first pat rep s 0 s"

text \<open>
  \<open>s.replace(/pat/g, rep)\<close> for a regular expression that matches the non-empty literal
  text \<open>pat\<close> (as \<open>/{{username}}/g\<close> does): every occurrence, left to right, without
  overlap.
\<close>

fun replace_global :: "string \<Rightarrow> string \<Rightarrow> string \<Rightarrow> nat \<Rightarrow> string \<Rightarrow> string" where
  "replace_global pat rep s i [] = []"
| "replace_global pat rep s i (c # cs) =
     (if pat \<noteq> [] \<and> prefix pat (c # cs)
      then getSubstitution pat (take i s) (drop (length pat - 1) cs) rep @
           replace_global pat rep s (i + length pat) (drop (length pat - 1) cs)
      else c # replace_global pat rep s (Suc i) cs)"

definition js_replace_all :: "string \<Rightarrow> string \<Rightarrow> string \<Rightarrow> string" where
  "js_replace_all s pat rep = replace_global pat rep s 0 s"

subsection \<open>Topic and insight of a tweet\<close>

definition tweet_topics :: "string list" where
  "tweet_topics = [''AI'', ''automation'', ''SaaS'', ''marketing'', ''sales'', ''product'',
     ''growth'', ''technology'', ''startups'']"

fun first_topic :: "string \<Rightarrow> string list \<Rightarrow> string" where
  "first_topic content [] = ''tech trends''"
| "first_topic content (topic # topics) =
     (if str_includes (toLowerCase content) (toLowerCase topic) then topic
      else first_topic content topics)"

definition extractTopicFromTweet :: "string \<Rightarrow> string" where
  "extractTopicFromTweet content = first_topic content tweet_topics"

text \<open>\<open>s.split(sep)\<close> for a one-character separator.\<close>

fun split_on :: "char \<Rightarrow> string \<Rightarrow> string list" where
  "split_on sep [] = [[]]"
| "split_on sep (c # cs) =
     (if c = sep then [] # split_on sep cs
      else (case split_on sep cs of [] \<Rightarrow> [[c]] | x # xs \<Rightarrow> (c # x) # xs))"

text \<open>White space and line terminators among the code units below 256.\<close>

definition is_white_space :: "char \<Rightarrow> bool" where
  "is_white_space c =
     (c \<in> set [CHR 0x09, CHR 0x0A, CHR 0x0B, CHR 0x0C, CHR 0x0D, CHR 0x20, CHR 0xA0])"

definition trim :: "string \<Rightarrow> string" where
  "trim s = rev (dropWhile is_white_space (rev (dropWhile is_white_space s)))"

definition extractInsight :: "string \<Rightarrow> string" where
  "extractInsight txt =
     (case filter (\<lambda>s. 10 < length (trim s)) (split_on (CHR ''.'') txt) of
        [] \<Rightarrow> ''your perspective''
      | s # sentences \<Rightarrow> take 50 (trim s) @ ''...'')"

subsection \<open>\<open>generateDMMessage\<close>\<close>

text \<open>The three groups of replacements, each behind its guard.\<close>

definition replace_username :: "lead \<Rightarrow> string \<Rightarrow> string" where
  "replace_username lead message =
     (case username lead of None \<Rightarrow> message
      | Some u \<Rightarrow> if u \<noteq> [] then js_replace_all message ''{{username}}'' u else message)"

definition replace_tweet :: "tweet option \<Rightarrow> string \<Rightarrow> string" where
  "replace_tweet tweetData message =
     (case tweetData of None \<Rightarrow> message
      | Some tw \<Rightarrow>
          (case tweet_text tw of None \<Rightarrow> message
           | Some t \<Rightarrow>
               if t \<noteq> [] then
                 js_replace (js_replace message ''{{threadTopic}}'' (extractTopicFromTweet t))
                   ''{{specificInsight}}'' (extractInsight t)
               else message))"

definition replace_keywords :: "lead \<Rightarrow> string \<Rightarrow> string" where
  "replace_keywords lead message =
     (case lead_keywords lead of None \<Rightarrow> message
      | Some [] \<Rightarrow> message
      | Some (k # ks) \<Rightarrow> js_replace (js_replace message ''{{topic}}'' k) ''{{field}}'' k)"

definition replace_generic :: "string \<Rightarrow> string" where
  "replace_generic message =
     js_replace (js_replace message ''{{solution}}'' ''AI automation tools'')
       ''{{value}}'' ''some insights''"

text \<open>
  \<open>generateDMMessage(type, lead, tweetData = null)\<close>: \<open>Inr None\<close> is the result
  \<open>null\<close>. A value inherited from \<open>Object.prototype\<close> is truthy and has no \<open>replace\<close>
  method, so the unconditional \<open>message.replace('{{solution}}', ...)\<close> throws.
\<close>

definition generateDMMessage ::
  "string \<Rightarrow> lead \<Rightarrow> tweet option \<Rightarrow> js_error + string option" where
  "generateDMMessage type lead tweetData =
     (case dmTemplates type of
        Undefined \<Rightarrow> Inr None
      | Inherited \<Rightarrow> Inl TypeError
      | Str template \<Rightarrow>
          Inr (Some (replace_generic (replace_keywords lead
                 (replace_tweet tweetData (replace_username lead template))))))"

section \<open>Example leads and quota snapshots\<close>

text \<open>
  The lead \<open>sarah_tech\<close>: 2500 followers, keywords AI and automation, one recent
  tweet with 45 likes and 8 comments, last active two days before \<open>now\<close>, has engaged with
  us, two mutual connections.
\<close>

definition sarah_tech :: "int \<Rightarrow> lead" where
  "sarah_tech now =
     \<lparr>username = Some ''sarah_tech'', bio = None,
      lead_keywords = Some [''AI'', ''automation''],
      recentTweets = Some [\<lparr>tweet_text = None,
        tweet_engagement = Some \<lparr>likes = Some 45, comments = Some 8\<rparr>\<rparr>],
      lastActivity = Some (Date (now - 2 * 24 * 60 * 60 * 1000)),
      followerCount = Some 2500, hasEngagedWithUs = Some True,
      mutualConnections = Some [''a'', ''b'']\<rparr>"

text \<open>\<open>mockQuota\<close> of test-conservative-twitter-outreach.js, and the same snapshot
  with the user lookups, with every quota and with the direct messages used up.\<close>

definition mockQuota :: apiQuota where
  "mockQuota =
     \<lparr>userLookup = \<lparr>remaining = 25, used = 5, limit = 30\<rparr>,
      tweetLookup = \<lparr>remaining = 15, used = 5, limit = 20\<rparr>,
      follow = \<lparr>remaining = 12, used = 3, limit = 15\<rparr>,
      like = \<lparr>remaining = 20, used = 5, limit = 25\<rparr>,
      dmSend = \<lparr>remaining = 4, used = 1, limit = 5\<rparr>\<rparr>"

definition lookups_used_up :: apiQuota where
  "lookups_used_up = mockQuota\<lparr>userLookup := \<lparr>remaining = 0, used = 30, limit = 30\<rparr>\<rparr>"

definition all_used_up :: apiQuota where
  "all_used_up =
     \<lparr>userLookup = \<lparr>remaining = 0, used = 30, limit = 30\<rparr>,
      tweetLookup = \<lparr>remaining = 0, used = 20, limit = 20\<rparr>,
      follow = \<lparr>remaining = 0, used = 15, limit = 15\<rparr>,
      like = \<lparr>remaining = 0, used = 25, limit = 25\<rparr>,
      dmSend = \<lparr>remaining = 0, used = 5, limit = 5\<rparr>\<rparr>"

definition dms_used_up :: apiQuota where
  "dms_used_up = mockQuota\<lparr>dmSend := \<lparr>remaining = 0, used = 5, limit = 5\<rparr>\<rparr>"

text \<open>A lead with 200 followers and one recent tweet with 3 likes and no comments;
  nothing else is known about it.\<close>

definition quiet_lead :: lead where
  "quiet_lead =
     \<lparr>username = Some ''quiet_one'', bio = None, lead_keywords = None,
      recentTweets = Some [\<lparr>tweet_text = None,
        tweet_engagement = Some \<lparr>likes = Some 3, comments = Some 0\<rparr>\<rparr>],
      lastActivity = None, followerCount = Some 200, hasEngagedWithUs = None,
      mutualConnections = None\<rparr>"

text \<open>A lead whose only keyword tag is \<open>AI chatbot\<close>.\<close>

definition chatbot_lead :: lead where
  "chatbot_lead =
     \<lparr>username = Some ''jane_dev'', bio = None, lead_keywords = Some [''AI chatbot''],
      recentTweets = None, lastActivity = None, followerCount = None,
      hasEngagedWithUs = None, mutualConnections = None\<rparr>"




text \<open>A lead with a handle and an empty list of keyword tags.\<close>

definition untagged_lead :: lead where
  "untagged_lead =
     \<lparr>username = Some ''sarah_tech'', bio = None, lead_keywords = Some [],
      recentTweets = None, lastActivity = None, followerCount = None,
      hasEngagedWithUs = None, mutualConnections = None\<rparr>"

text \<open>A lead with a handle, a keyword tag and no recent tweets; a tweet whose text
  names no topic and has no sentence of more than ten characters.\<close>

definition bare_lead :: lead where
  "bare_lead =
     \<lparr>username = Some ''sarah_tech'', bio = None, lead_keywords = Some [''AI''],
      recentTweets = Some [], lastActivity = None, followerCount = None,
      hasEngagedWithUs = None, mutualConnections = None\<rparr>"

definition short_tweet :: tweet where
  "short_tweet = \<lparr>tweet_text = Some ''Good day. Nice!'', tweet_engagement = None\<rparr>"

section \<open>What the criteria compute\<close>

lemma bindE_Inr [simp]: "bindE (Inr v) f = f v"
  by (simp add: bindE_def)

lemma bindE_Inl [simp]: "bindE (Inl e) f = Inl e"
  by (simp add: bindE_def)

lemma js_and_Inr [simp]: "js_and (Inr a) (Inr b) = Inr (a \<and> b)"
  by (simp add: js_and_def)

lemma js_and_False [simp]: "js_and (Inr False) b = Inr False"
  by (simp add: js_and_def)

lemma js_and_True [simp]: "js_and (Inr True) b = b"
  by (simp add: js_and_def)

lemma js_or_Inr [simp]: "js_or (Inr a) (Inr b) = Inr (a \<or> b)"
  by (simp add: js_or_def)

lemma js_not_Inr [simp]: "js_not (Inr a) = Inr (\<not> a)"
  by (simp add: js_not_def)

lemma array_some_Inr [simp]: "array_some (\<lambda>x. Inr (P x)) xs = Inr (\<exists>x\<in>set xs. P x)"
  by (induction xs) auto

lemma nonempty_guard:
  "js_and (Inr (truthy_object x)) (bindE (get_length x) (\<lambda>n. Inr (0 < n))) =
     Inr (\<exists>xs. x = Some xs \<and> xs \<noteq> [])"
  by (cases x) (simp_all add: truthy_object_def get_length_def)

lemma hasUsername_eq: "hasUsername lead = Inr (\<exists>s. username lead = Some s \<and> s \<noteq> [])"
  by (cases "username lead") (simp_all add: hasUsername_def truthy_string_def get_length_def)

lemma noSpamKeywords_eq:
  "noSpamKeywords lead =
     Inr (\<forall>k\<in>set excludeKeywords.
            \<not> opt_lower_includes (username lead) k \<and> \<not> opt_lower_includes (bio lead) k)"
  by (simp add: noSpamKeywords_def)

lemma keyword_match_eq:
  "js_and (Inr (truthy_object x))
     (get_some x (\<lambda>keyword. array_some (\<lambda>t.
        Inr (str_includes (toLowerCase keyword) (toLowerCase t))) topics)) =
   Inr (\<exists>ks. x = Some ks \<and>
          (\<exists>keyword\<in>set ks. \<exists>t\<in>set topics.
             str_includes (toLowerCase keyword) (toLowerCase t)))"
  by (cases x) (simp_all add: truthy_object_def get_some_def)

lemma hasRelevantKeywords_eq:
  "hasRelevantKeywords lead =
     Inr (\<exists>ks. lead_keywords lead = Some ks \<and>
            (\<exists>keyword\<in>set ks. \<exists>t\<in>set relevantKeywords.
               str_includes (toLowerCase keyword) (toLowerCase t)))"
  unfolding hasRelevantKeywords_def by (rule keyword_match_eq)

lemma perfectMatch_eq:
  "perfectMatch lead =
     Inr (\<exists>ks. lead_keywords lead = Some ks \<and>
            (\<exists>keyword\<in>set ks. \<exists>t\<in>set perfectKeywords.
               str_includes (toLowerCase keyword) (toLowerCase t)))"
  unfolding perfectMatch_def by (rule keyword_match_eq)

lemma hasRecentActivity_eq:
  "hasRecentActivity lead = Inr (\<exists>ts. recentTweets lead = Some ts \<and> ts \<noteq> [])"
  unfolding hasRecentActivity_def by (rule nonempty_guard)

lemma relevantContent_eq:
  "relevantContent lead = Inr (\<exists>ks. lead_keywords lead = Some ks \<and> ks \<noteq> [])"
  unfolding relevantContent_def by (rule nonempty_guard)

lemma hasMutualConnections_eq:
  "hasMutualConnections lead = Inr (\<exists>ms. mutualConnections lead = Some ms \<and> ms \<noteq> [])"
  unfolding hasMutualConnections_def by (rule nonempty_guard)

lemma engagedWithUs_eq: "engagedWithUs lead = Inr (hasEngagedWithUs lead = Some True)"
  by (cases "hasEngagedWithUs lead") (simp_all add: engagedWithUs_def truthy_bool_def)

lemma tweet_has_engagement_eq: "tweet_has_engagement tweet = Inr (engaged_tweet tweet)"
  by (cases "tweet_engagement tweet")
     (simp_all add: tweet_has_engagement_def engaged_tweet_def truthy_object_def
        get_likes_def get_comments_def)

lemma goodEngagement_eq:
  "goodEngagement lead = Inr (\<exists>ts. recentTweets lead = Some ts \<and> (\<exists>t\<in>set ts. engaged_tweet t))"
proof -
  have fn: "tweet_has_engagement = (\<lambda>t. Inr (engaged_tweet t))"
    by (rule ext) (rule tweet_has_engagement_eq)
  show ?thesis
    unfolding goodEngagement_def fn
    by (cases "recentTweets lead") (simp_all add: truthy_object_def get_some_def)
qed

section \<open>The predicates and the sequence builder always return\<close>

lemma isWorthResearching_eq:
  "isWorthResearching lead =
     Inr ((\<exists>s. username lead = Some s \<and> s \<noteq> []) \<and>
          (\<forall>k\<in>set excludeKeywords.
             \<not> opt_lower_includes (username lead) k \<and> \<not> opt_lower_includes (bio lead) k) \<and>
          (\<exists>ks. lead_keywords lead = Some ks \<and>
             (\<exists>keyword\<in>set ks. \<exists>t\<in>set relevantKeywords.
                str_includes (toLowerCase keyword) (toLowerCase t))))"
  by (simp add: isWorthResearching_def hasUsername_eq noSpamKeywords_eq hasRelevantKeywords_eq
        every_Boolean_def)

lemma isWorthResearching_total: "\<exists>b. isWorthResearching lead = Inr b"
  by (simp add: isWorthResearching_eq)

lemma isWorthEngaging_total: "\<exists>b. isWorthEngaging now lead = Inr b"
  by (simp add: isWorthEngaging_def hasRecentActivity_eq goodEngagement_eq relevantContent_eq
        activeUser_def reasonableFollowerCount_def goodEngagementRate_def)

lemma isHighlyQualified_total: "\<exists>b. isHighlyQualified now lead = Inr b"
  by (simp add: isHighlyQualified_def engagedWithUs_eq hasMutualConnections_eq
        highEngagementRate_def veryRecentActivity_def perfectMatch_eq)

lemma like_guard:
  "js_and (Inr (truthy_object x)) (js_and (bindE (get_length x) (\<lambda>n. Inr (0 < n))) (Inr c)) =
     Inr ((\<exists>xs. x = Some xs \<and> xs \<noteq> []) \<and> c)"
  by (cases x) (simp_all add: truthy_object_def get_length_def)

lemma getOutreachSequence_shape:
  "\<exists>r e l d.
     getOutreachSequence now now' lead q =
       Inr ((if r then [research_step] else []) @ (if e then [follow_step] else []) @
            (if l then [like_step] else []) @ (if d then [dm_step] else [])) \<and>
     (r \<longrightarrow> 0 < remaining (userLookup q) \<and> isWorthResearching lead = Inr True) \<and>
     (e \<longrightarrow> 0 < remaining (follow q) \<and> 0 < remaining (like q) \<and>
            isWorthEngaging now lead = Inr True) \<and>
     (l \<longrightarrow> e \<and> 0 < remaining (like q)) \<and>
     (d \<longrightarrow> 0 < remaining (dmSend q) \<and> isHighlyQualified now' lead = Inr True \<and>
            e \<and> (r \<or> l))"
proof -
  obtain wr where wr: "isWorthResearching lead = Inr wr"
    using isWorthResearching_total by blast
  obtain we where we: "isWorthEngaging now lead = Inr we"
    using isWorthEngaging_total by blast
  obtain hq where hq: "isHighlyQualified now' lead = Inr hq"
    using isHighlyQualified_total by blast
  define r where "r = (0 < remaining (userLookup q) \<and> wr)"
  define e where "e = (0 < remaining (follow q) \<and> 0 < remaining (like q) \<and> we)"
  define l where "l = (e \<and> (\<exists>ts. recentTweets lead = Some ts \<and> ts \<noteq> []))"
  define d where "d = (0 < remaining (dmSend q) \<and> hq \<and> e \<and> (r \<or> l))"
  have s1: "push_research lead q [] = Inr (if r then [research_step] else [])"
    by (simp add: push_research_def wr r_def)
  have s2: "push_engagement now lead q s =
              Inr (s @ (if e then [follow_step] else []) @ (if l then [like_step] else []))" for s
    by (auto simp add: push_engagement_def we e_def l_def like_guard)
  have s3: "push_dm now' lead q
              ((if r then [research_step] else []) @ (if e then [follow_step] else []) @
               (if l then [like_step] else [])) =
            Inr (((if r then [research_step] else []) @ (if e then [follow_step] else []) @
               (if l then [like_step] else [])) @ (if d then [dm_step] else []))"
    by (auto simp add: push_dm_def hq d_def l_def)
  have "getOutreachSequence now now' lead q =
       Inr ((if r then [research_step] else []) @ (if e then [follow_step] else []) @
            (if l then [like_step] else []) @ (if d then [dm_step] else []))"
    unfolding getOutreachSequence_def s1 bindE_Inr s2 s3 by simp
  moreover have "r \<longrightarrow> 0 < remaining (userLookup q) \<and> isWorthResearching lead = Inr True"
    by (simp add: r_def wr)
  moreover have "e \<longrightarrow> 0 < remaining (follow q) \<and> 0 < remaining (like q) \<and>
            isWorthEngaging now lead = Inr True"
    by (simp add: e_def we)
  moreover have "l \<longrightarrow> e \<and> 0 < remaining (like q)"
    by (simp add: l_def e_def)
  moreover have "d \<longrightarrow> 0 < remaining (dmSend q) \<and> isHighlyQualified now' lead = Inr True \<and>
            e \<and> (r \<or> l)"
    by (simp add: d_def hq)
  ultimately show ?thesis by blast
qed

section \<open>Evaluating the examples\<close>

lemmas step_simps = research_step_def follow_step_def like_step_def dm_step_def

lemmas string_simps = toLowerCase_def toLowerCase_unit_def char_of_def
  opt_lower_includes_def

lemmas number_simps = to_num_def js_gt_def js_ge_def date_diff_def active_within_def
  reduce_likes_def likes_or_0_def engagement_rate_at_least_def

lemmas config_simps = minFollowers_def maxFollowers_def minEngagement_def recentActivity_def
  relevantKeywords_def excludeKeywords_def perfectKeywords_def

lemma sarah_research: "isWorthResearching (sarah_tech now) = Inr True"
  by (simp add: isWorthResearching_eq sarah_tech_def config_simps string_simps)

lemma sarah_engaging: "isWorthEngaging now (sarah_tech now) = Inr True"
  by (simp add: isWorthEngaging_def hasRecentActivity_eq goodEngagement_eq relevantContent_eq
        activeUser_def reasonableFollowerCount_def goodEngagementRate_def metCriteria_def
        engaged_tweet_def sarah_tech_def config_simps number_simps)

lemma sarah_qualified:
  "now \<le> now' \<Longrightarrow> now' < now + 24 * 60 * 60 * 1000 \<Longrightarrow>
   isHighlyQualified now' (sarah_tech now) = Inr True"
  by (simp add: isHighlyQualified_def engagedWithUs_eq hasMutualConnections_eq
        highEngagementRate_def veryRecentActivity_def perfectMatch_eq metCriteria_def
        sarah_tech_def config_simps number_simps string_simps)

text \<open>The sequence for \<open>sarah_tech\<close> under any quota snapshot, when less than a day
  passes between the two clock readings.\<close>

lemma sarah_sequence:
  assumes "now \<le> now'" "now' < now + 24 * 60 * 60 * 1000"
  shows "getOutreachSequence now now' (sarah_tech now) q =
     Inr ((if 0 < remaining (userLookup q) then [research_step] else []) @
          (if 0 < remaining (follow q) \<and> 0 < remaining (like q)
           then [follow_step, like_step] else []) @
          (if 0 < remaining (dmSend q) \<and> 0 < remaining (follow q) \<and> 0 < remaining (like q)
           then [dm_step] else []))"
proof -
  have "\<exists>ts. recentTweets (sarah_tech now) = Some ts \<and> ts \<noteq> []"
    by (simp add: sarah_tech_def)
  then show ?thesis
    using assms
    by (simp add: getOutreachSequence_def push_research_def push_engagement_def push_dm_def
          sarah_research sarah_engaging sarah_qualified like_guard)
qed

lemma sarah_mockQuota:
  "getOutreachSequence 1754548593000 1754548593007 (sarah_tech 1754548593000) mockQuota =
     Inr [research_step, follow_step, like_step, dm_step]"
  by (simp add: sarah_sequence mockQuota_def)

lemma sarah_lookups_used_up:
  "getOutreachSequence 1754548593000 1754548593007 (sarah_tech 1754548593000) lookups_used_up =
     Inr [follow_step, like_step, dm_step]"
  by (simp add: sarah_sequence lookups_used_up_def mockQuota_def)

lemma sarah_dms_used_up:
  "getOutreachSequence 1754548593000 1754548593007 (sarah_tech 1754548593000) dms_used_up =
     Inr [research_step, follow_step, like_step]"
  by (simp add: sarah_sequence dms_used_up_def mockQuota_def)

lemma sarah_all_used_up:
  "getOutreachSequence 1754548593000 1754548593007 (sarah_tech 1754548593000) all_used_up =
     Inr []"
  by (simp add: sarah_sequence all_used_up_def)

section \<open>Claims about the outreach sequence\<close>

text \<open>
  C1. For every lead and every quota snapshot \<open>getOutreachSequence\<close> returns a
  sequence, and a \<open>dmSend\<close> step occurs in it only at a position with at least two steps
  before it, none of them a \<open>dmSend\<close> step, and only when \<open>isHighlyQualified\<close>
  is true of the lead.
\<close>

theorem dm_step_needs_two_steps_and_qualification:
  "\<exists>seq. getOutreachSequence now now' lead q = Inr seq \<and>
     (\<forall>i<length seq. action (seq ! i) = ''dmSend'' \<longrightarrow>
        2 \<le> i \<and> (\<forall>j<i. action (seq ! j) \<noteq> ''dmSend'') \<and>
        isHighlyQualified now' lead = Inr True)"
proof -
  obtain r e l d where
    seq: "getOutreachSequence now now' lead q =
       Inr ((if r then [research_step] else []) @ (if e then [follow_step] else []) @
            (if l then [like_step] else []) @ (if d then [dm_step] else []))"
    and l: "l \<longrightarrow> e \<and> 0 < remaining (like q)"
    and d: "d \<longrightarrow> 0 < remaining (dmSend q) \<and> isHighlyQualified now' lead = Inr True \<and>
            e \<and> (r \<or> l)"
    using getOutreachSequence_shape [of now now' lead q] by blast
  show ?thesis
    unfolding seq using l d
    by (cases r; cases e; cases l; cases d; simp add: step_simps All_less_Suc nth_Cons')
qed

theorem dm_step_needs_two_steps_and_qualification_witness:
  "getOutreachSequence 1754548593000 1754548593007 (sarah_tech 1754548593000) mockQuota =
     Inr [research_step, follow_step, like_step, dm_step] \<and>
   action ([research_step, follow_step, like_step, dm_step] ! 3) = ''dmSend'' \<and>
   action ([research_step, follow_step, like_step, dm_step] ! 0) \<noteq> ''dmSend'' \<and>
   action ([research_step, follow_step, like_step, dm_step] ! 1) \<noteq> ''dmSend'' \<and>
   isHighlyQualified 1754548593007 (sarah_tech 1754548593000) = Inr True"
proof -
  obtain seq where
    seq: "getOutreachSequence 1754548593000 1754548593007 (sarah_tech 1754548593000) mockQuota =
            Inr seq"
    and dm: "\<forall>i<length seq. action (seq ! i) = ''dmSend'' \<longrightarrow>
        2 \<le> i \<and> (\<forall>j<i. action (seq ! j) \<noteq> ''dmSend'') \<and>
        isHighlyQualified 1754548593007 (sarah_tech 1754548593000) = Inr True"
    using dm_step_needs_two_steps_and_qualification
      [of 1754548593000 1754548593007 "sarah_tech 1754548593000" mockQuota]
    by blast
  have eq: "seq = [research_step, follow_step, like_step, dm_step]"
    using seq by (simp add: sarah_mockQuota)
  have "action (seq ! 3) = ''dmSend''" "(3::nat) < length seq"
    by (simp_all add: eq dm_step_def)
  with dm have before: "\<forall>j<3. action (seq ! j) \<noteq> ''dmSend''"
    and hq: "isHighlyQualified 1754548593007 (sarah_tech 1754548593000) = Inr True"
    by blast+
  from before have "action (seq ! 0) \<noteq> ''dmSend''" "action (seq ! 1) \<noteq> ''dmSend''"
    by simp_all
  then show ?thesis
    using hq seq unfolding eq by (simp add: dm_step_def)
qed

text \<open>
  C2. No action appears in the returned sequence when the remaining count it is gated by
  is zero (or less): \<open>research\<close> by \<open>userLookup\<close>, \<open>follow\<close> by \<open>follow\<close>,
  \<open>like\<close> by \<open>like\<close> and \<open>dmSend\<close> by \<open>dmSend\<close>. In particular there is no
  direct message when no direct messages remain, whatever the lead.
\<close>

theorem no_step_without_quota:
  "\<exists>seq. getOutreachSequence now now' lead q = Inr seq \<and>
     (remaining (userLookup q) \<le> 0 \<longrightarrow> ''research'' \<notin> action ` set seq) \<and>
     (remaining (follow q) \<le> 0 \<longrightarrow> ''follow'' \<notin> action ` set seq) \<and>
     (remaining (like q) \<le> 0 \<longrightarrow> ''like'' \<notin> action ` set seq) \<and>
     (remaining (dmSend q) \<le> 0 \<longrightarrow> ''dmSend'' \<notin> action ` set seq)"
proof -
  obtain r e l d where
    seq: "getOutreachSequence now now' lead q =
       Inr ((if r then [research_step] else []) @ (if e then [follow_step] else []) @
            (if l then [like_step] else []) @ (if d then [dm_step] else []))"
    and r: "r \<longrightarrow> 0 < remaining (userLookup q) \<and> isWorthResearching lead = Inr True"
    and e: "e \<longrightarrow> 0 < remaining (follow q) \<and> 0 < remaining (like q) \<and>
            isWorthEngaging now lead = Inr True"
    and l: "l \<longrightarrow> e \<and> 0 < remaining (like q)"
    and d: "d \<longrightarrow> 0 < remaining (dmSend q) \<and> isHighlyQualified now' lead = Inr True \<and>
            e \<and> (r \<or> l)"
    using getOutreachSequence_shape [of now now' lead q] by blast
  show ?thesis
    unfolding seq using r e l d
    by (cases r; cases e; cases l; cases d; simp add: step_simps)
qed

theorem no_step_without_quota_witness:
  "remaining (dmSend dms_used_up) \<le> 0 \<and>
   getOutreachSequence 1754548593000 1754548593007 (sarah_tech 1754548593000) dms_used_up =
     Inr [research_step, follow_step, like_step] \<and>
   ''dmSend'' \<notin> action ` set [research_step, follow_step, like_step] \<and>
   remaining (userLookup all_used_up) \<le> 0 \<and> remaining (follow all_used_up) \<le> 0 \<and>
   remaining (like all_used_up) \<le> 0 \<and> remaining (dmSend all_used_up) \<le> 0 \<and>
   getOutreachSequence 1754548593000 1754548593007 (sarah_tech 1754548593000) all_used_up =
     Inr []"
proof -
  obtain seq where
    seq: "getOutreachSequence 1754548593000 1754548593007 (sarah_tech 1754548593000)
            dms_used_up = Inr seq"
    and dm: "remaining (dmSend dms_used_up) \<le> 0 \<longrightarrow> ''dmSend'' \<notin> action ` set seq"
    using no_step_without_quota
      [of 1754548593000 1754548593007 "sarah_tech 1754548593000" dms_used_up]
    by blast
  have zero: "remaining (dmSend dms_used_up) \<le> 0"
    by (simp add: dms_used_up_def)
  have eq: "seq = [research_step, follow_step, like_step]"
    using seq by (simp add: sarah_dms_used_up)
  have absent: "''dmSend'' \<notin> action ` set [research_step, follow_step, like_step]"
    using dm zero unfolding eq by blast
  have "remaining (userLookup all_used_up) \<le> 0" "remaining (follow all_used_up) \<le> 0"
    "remaining (like all_used_up) \<le> 0" "remaining (dmSend all_used_up) \<le> 0"
    by (simp_all add: all_used_up_def)
  with absent zero show ?thesis
    using sarah_dms_used_up sarah_all_used_up by blast
qed

text \<open>
  C5. The lead \<open>sarah_tech\<close> against a snapshot in which every remaining count is
  positive: the three predicates are true and the sequence is research, follow, like,
  direct message. The second clock reading comes less than a day after the first.
\<close>

theorem sarah_tech_scenario:
  assumes "0 < remaining (userLookup q)" "0 < remaining (tweetLookup q)"
    "0 < remaining (follow q)" "0 < remaining (like q)" "0 < remaining (dmSend q)"
    "now \<le> now'" "now' < now + 24 * 60 * 60 * 1000"
  shows "isWorthResearching (sarah_tech now) = Inr True \<and>
     isWorthEngaging now (sarah_tech now) = Inr True \<and>
     isHighlyQualified now' (sarah_tech now) = Inr True \<and>
     getOutreachSequence now now' (sarah_tech now) q =
       Inr [research_step, follow_step, like_step, dm_step] \<and>
     map action [research_step, follow_step, like_step, dm_step] =
       [''research'', ''follow'', ''like'', ''dmSend'']"
  using assms
  by (simp add: sarah_research sarah_engaging sarah_qualified sarah_sequence step_simps)

theorem sarah_tech_scenario_witness:
  "isWorthResearching (sarah_tech 1754548593000) = Inr True \<and>
   isWorthEngaging 1754548593000 (sarah_tech 1754548593000) = Inr True \<and>
   isHighlyQualified 1754548593007 (sarah_tech 1754548593000) = Inr True \<and>
   getOutreachSequence 1754548593000 1754548593007 (sarah_tech 1754548593000) mockQuota =
     Inr [research_step, follow_step, like_step, dm_step] \<and>
   map action [research_step, follow_step, like_step, dm_step] =
     [''research'', ''follow'', ''like'', ''dmSend'']"
  by (rule sarah_tech_scenario) (simp_all add: mockQuota_def)

text \<open>
  C10. The returned sequence has at most four steps, no action twice, its actions in the
  order research, follow, like, direct message (a subsequence of that list), and a like
  step only directly after a follow step.
\<close>

theorem sequence_size_and_order:
  "\<exists>seq. getOutreachSequence now now' lead q = Inr seq \<and>
     length seq \<le> 4 \<and> distinct (map action seq) \<and>
     subseq (map action seq) [''research'', ''follow'', ''like'', ''dmSend''] \<and>
     (\<forall>i<length seq. action (seq ! i) = ''like'' \<longrightarrow>
        0 < i \<and> action (seq ! (i - 1)) = ''follow'')"
proof -
  obtain r e l d where
    seq: "getOutreachSequence now now' lead q =
       Inr ((if r then [research_step] else []) @ (if e then [follow_step] else []) @
            (if l then [like_step] else []) @ (if d then [dm_step] else []))"
    and l: "l \<longrightarrow> e \<and> 0 < remaining (like q)"
    using getOutreachSequence_shape [of now now' lead q] by blast
  show ?thesis
    unfolding seq using l
    by (cases r; cases e; cases l; cases d; simp add: step_simps All_less_Suc nth_Cons')
qed

theorem sequence_size_and_order_witness:
  "getOutreachSequence 1754548593000 1754548593007 (sarah_tech 1754548593000) mockQuota =
     Inr [research_step, follow_step, like_step, dm_step] \<and>
   action ([research_step, follow_step, like_step, dm_step] ! 2) = ''like'' \<and>
   action ([research_step, follow_step, like_step, dm_step] ! (2 - 1)) = ''follow'' \<and>
   subseq (map action [research_step, follow_step, like_step, dm_step])
     [''research'', ''follow'', ''like'', ''dmSend'']"
proof -
  obtain seq where
    seq: "getOutreachSequence 1754548593000 1754548593007 (sarah_tech 1754548593000) mockQuota =
            Inr seq"
    and sub: "subseq (map action seq) [''research'', ''follow'', ''like'', ''dmSend'']"
    and lk: "\<forall>i<length seq. action (seq ! i) = ''like'' \<longrightarrow>
        0 < i \<and> action (seq ! (i - 1)) = ''follow''"
    using sequence_size_and_order
      [of 1754548593000 1754548593007 "sarah_tech 1754548593000" mockQuota]
    by blast
  have eq: "seq = [research_step, follow_step, like_step, dm_step]"
    using seq by (simp add: sarah_mockQuota)
  have at2: "action (seq ! 2) = ''like''" "(2::nat) < length seq"
    by (simp_all add: eq like_step_def)
  with lk have "action (seq ! (2 - 1)) = ''follow''"
    by blast
  with at2 sub seq show ?thesis
    unfolding eq by blast
qed

text \<open>
  C6, as stated, fails: the priority ranks are the constants 1 to 4 of the four actions,
  so a sequence without the research step starts at rank 2. With the user lookups used
  up, the sequence for \<open>sarah_tech\<close> is follow, like, direct message.
\<close>

theorem first_rank_not_one_counterexample:
  "getOutreachSequence 1754548593000 1754548593007 (sarah_tech 1754548593000) lookups_used_up =
     Inr [follow_step, like_step, dm_step] \<and>
   priority (hd [follow_step, like_step, dm_step]) = 2"
  by (simp add: sarah_lookups_used_up follow_step_def)

text \<open>
  C6, amended. The priority ranks of the returned sequence are strictly increasing and
  lie between 1 and 4; the first step of a non-empty sequence has rank 1 when it is the
  research step and rank 2 otherwise.
\<close>

theorem priority_ranks_increasing:
  "\<exists>seq. getOutreachSequence now now' lead q = Inr seq \<and>
     sorted_wrt (<) (map priority seq) \<and>
     (\<forall>s\<in>set seq. 1 \<le> priority s \<and> priority s \<le> 4) \<and>
     (seq \<noteq> [] \<longrightarrow> priority (hd seq) = (if action (hd seq) = ''research'' then 1 else 2))"
proof -
  obtain r e l d where
    seq: "getOutreachSequence now now' lead q =
       Inr ((if r then [research_step] else []) @ (if e then [follow_step] else []) @
            (if l then [like_step] else []) @ (if d then [dm_step] else []))"
    and l: "l \<longrightarrow> e \<and> 0 < remaining (like q)"
    and d: "d \<longrightarrow> 0 < remaining (dmSend q) \<and> isHighlyQualified now' lead = Inr True \<and>
            e \<and> (r \<or> l)"
    using getOutreachSequence_shape [of now now' lead q] by blast
  show ?thesis
    unfolding seq using l d
    by (cases r; cases e; cases l; cases d; simp add: step_simps)
qed

theorem priority_ranks_increasing_witness:
  "getOutreachSequence 1754548593000 1754548593007 (sarah_tech 1754548593000) mockQuota =
     Inr [research_step, follow_step, like_step, dm_step] \<and>
   [research_step, follow_step, like_step, dm_step] \<noteq> [] \<and>
   dm_step \<in> set [research_step, follow_step, like_step, dm_step] \<and>
   sorted_wrt (<) (map priority [research_step, follow_step, like_step, dm_step]) \<and>
   priority dm_step \<le> 4 \<and>
   priority (hd [research_step, follow_step, like_step, dm_step]) =
     (if action (hd [research_step, follow_step, like_step, dm_step]) = ''research''
      then 1 else 2)"
proof -
  obtain seq where
    seq: "getOutreachSequence 1754548593000 1754548593007 (sarah_tech 1754548593000) mockQuota =
            Inr seq"
    and inc: "sorted_wrt (<) (map priority seq)"
    and rng: "\<forall>s\<in>set seq. 1 \<le> priority s \<and> priority s \<le> 4"
    and fst: "seq \<noteq> [] \<longrightarrow>
        priority (hd seq) = (if action (hd seq) = ''research'' then 1 else 2)"
    using priority_ranks_increasing
      [of 1754548593000 1754548593007 "sarah_tech 1754548593000" mockQuota]
    by blast
  have eq: "seq = [research_step, follow_step, like_step, dm_step]"
    using seq by (simp add: sarah_mockQuota)
  have ne: "seq \<noteq> []" and mem: "dm_step \<in> set seq"
    by (simp_all add: eq)
  from rng mem have "priority dm_step \<le> 4"
    by blast
  moreover from fst ne have
    "priority (hd seq) = (if action (hd seq) = ''research'' then 1 else 2)"
    by blast
  ultimately show ?thesis
    using seq inc ne mem unfolding eq by blast
qed

section \<open>Claims about the qualification predicates\<close>







text \<open>\<open>s.includes(t)\<close> holds exactly when \<open>t\<close> is a contiguous part of \<open>s\<close>.\<close>

lemma str_includes_sublist: "str_includes s t = sublist t s"
  by (induction s) (simp_all add: sublist_Cons_right)

lemma str_includes_iff: "str_includes s t \<longleftrightarrow> (\<exists>ps ss. s = ps @ t @ ss)"
  by (simp add: str_includes_sublist sublist_def)

text \<open>
  C3. \<open>isWorthEngaging\<close> counts six criteria and needs three of them, but its
  engagement-rate criterion compares the quotient of likes by followers with
  \<open>minEngagement = 0.5\<close>, that is with 50 percent, where the constructor's comment and
  the claim say 0.5 percent. For a lead with 200 followers and one tweet with 3 likes the
  quotient is 0.015: two other criteria hold, the claimed bound 0.005 is met, and the
  method still returns false.
\<close>

theorem engagement_rate_bound_failing_input:
  "hasRecentActivity quiet_lead = Inr True \<and>
   goodEngagement quiet_lead = Inr False \<and>
   relevantContent quiet_lead = Inr False \<and>
   activeUser now quiet_lead = Inr False \<and>
   reasonableFollowerCount quiet_lead = Inr True \<and>
   engagement_rate_at_least quiet_lead 0.005 \<and>
   goodEngagementRate quiet_lead = Inr False \<and>
   isWorthEngaging now quiet_lead = Inr False"
  by (simp add: isWorthEngaging_def hasRecentActivity_eq goodEngagement_eq relevantContent_eq
        activeUser_def reasonableFollowerCount_def goodEngagementRate_def metCriteria_def
        engaged_tweet_def quiet_lead_def config_simps number_simps)

text \<open>
  C4, as stated, fails: the spam markers are searched in the handle and in the bio, not
  in the keyword tags. The only keyword tag of this lead contains the marker \<open>bot\<close>,
  and the lead is worth researching.
\<close>

theorem spam_marker_in_keyword_counterexample:
  "isWorthResearching chatbot_lead = Inr True \<and>
   lead_keywords chatbot_lead = Some [''AI chatbot''] \<and>
   ''bot'' \<in> set excludeKeywords \<and>
   str_includes (toLowerCase ''AI chatbot'') ''bot''"
  by (simp add: isWorthResearching_eq chatbot_lead_def config_simps string_simps)

text \<open>
  C4, amended. \<open>isWorthResearching\<close> is true exactly when the lead has a non-empty
  handle, neither its handle nor its bio, in lower case, contains a spam marker of the
  exclude list, and at least one of its keyword tags contains, in lower case, a
  lower-cased topic of the relevant list. For a lead with no keyword tags, or without the
  property, it is false.
\<close>

theorem worth_researching_criteria:
  "isWorthResearching lead =
     Inr ((\<exists>s. username lead = Some s \<and> s \<noteq> []) \<and>
          (\<forall>k\<in>set excludeKeywords.
             \<not> opt_lower_includes (username lead) k \<and> \<not> opt_lower_includes (bio lead) k) \<and>
          (\<exists>ks. lead_keywords lead = Some ks \<and>
             (\<exists>keyword\<in>set ks. \<exists>t\<in>set relevantKeywords.
                str_includes (toLowerCase keyword) (toLowerCase t)))) \<and>
   (lead_keywords lead = None \<or> lead_keywords lead = Some [] \<longrightarrow>
      isWorthResearching lead = Inr False)"
  by (auto simp add: isWorthResearching_eq)

theorem worth_researching_criteria_witness:
  "lead_keywords untagged_lead = Some [] \<and> isWorthResearching untagged_lead = Inr False \<and>
   ''bot'' \<in> set excludeKeywords \<and>
   \<not> opt_lower_includes (username (sarah_tech 1754548593000)) ''bot'' \<and>
   ''AI'' \<in> set relevantKeywords \<and>
   isWorthResearching (sarah_tech 1754548593000) = Inr True"
proof -
  have tags: "lead_keywords untagged_lead = Some []"
    by (simp add: untagged_lead_def)
  then have no: "isWorthResearching untagged_lead = Inr False"
    using worth_researching_criteria [of untagged_lead] by blast
  have lists: "''bot'' \<in> set excludeKeywords" "''AI'' \<in> set relevantKeywords"
    by (simp_all add: config_simps)
  have yes: "isWorthResearching (sarah_tech 1754548593000) = Inr True"
    by (rule sarah_research)
  then have "\<forall>k\<in>set excludeKeywords.
      \<not> opt_lower_includes (username (sarah_tech 1754548593000)) k"
    using worth_researching_criteria [of "sarah_tech 1754548593000"] by simp
  with lists have "\<not> opt_lower_includes (username (sarah_tech 1754548593000)) ''bot''"
    by blast
  with tags no lists yes show ?thesis
    by blast
qed

section \<open>Rendering the initial template\<close>

lemma initial_template_slots:
  "initial_template =
     initial_message ''{{username}}'' ''{{threadTopic}}'' ''{{specificInsight}}''
       ''{{solution}}'' ''{{value}}''"
  by (simp add: initial_template_def initial_message_def)

lemma getSubstitution_no_dollar:
  "CHR ''$'' \<notin> set rep \<Longrightarrow> getSubstitution m p f rep = rep"
  by (induction m p f rep rule: getSubstitution.induct) auto

text \<open>A pattern that starts with a brace cannot match inside a text without braces.\<close>

lemma replace_first_skip:
  "CHR ''{'' \<notin> set u \<Longrightarrow>
   replace_first (CHR ''{'' # p) rep w i (u @ s) =
     u @ replace_first (CHR ''{'' # p) rep w (i + length u) s"
  by (induction u arbitrary: i) auto

lemmas pass_simps = initial_message_def js_replace_def replace_first_skip
  getSubstitution_no_dollar

lemma username_pass:
  "CHR ''$'' \<notin> set u \<Longrightarrow>
   js_replace_all initial_template ''{{username}}'' u =
     initial_message u ''{{threadTopic}}'' ''{{specificInsight}}'' ''{{solution}}'' ''{{value}}''"
  by (simp add: js_replace_all_def initial_template_def initial_message_def
        getSubstitution_no_dollar)

lemma topic_pass:
  "CHR ''{'' \<notin> set u \<Longrightarrow> CHR ''$'' \<notin> set T \<Longrightarrow>
   js_replace (initial_message u ''{{threadTopic}}'' i s v) ''{{threadTopic}}'' T =
     initial_message u T i s v"
  by (simp add: pass_simps)

lemma insight_pass:
  "CHR ''{'' \<notin> set u \<Longrightarrow> CHR ''{'' \<notin> set T \<Longrightarrow> CHR ''$'' \<notin> set I \<Longrightarrow>
   js_replace (initial_message u T ''{{specificInsight}}'' s v) ''{{specificInsight}}'' I =
     initial_message u T I s v"
  by (simp add: pass_simps)

lemma solution_pass:
  "CHR ''{'' \<notin> set u \<Longrightarrow> CHR ''{'' \<notin> set T \<Longrightarrow> CHR ''{'' \<notin> set I \<Longrightarrow>
   js_replace (initial_message u T I ''{{solution}}'' v) ''{{solution}}''
     ''AI automation tools'' = initial_message u T I ''AI automation tools'' v"
  by (simp add: pass_simps)

lemma value_pass:
  "CHR ''{'' \<notin> set u \<Longrightarrow> CHR ''{'' \<notin> set T \<Longrightarrow> CHR ''{'' \<notin> set I \<Longrightarrow>
   js_replace (initial_message u T I ''AI automation tools'' ''{{value}}'') ''{{value}}''
     ''some insights'' = initial_message u T I ''AI automation tools'' ''some insights''"
  by (simp add: pass_simps)

lemma topic_keyword_pass:
  "CHR ''{'' \<notin> set u \<Longrightarrow> CHR ''{'' \<notin> set T \<Longrightarrow> CHR ''{'' \<notin> set I \<Longrightarrow>
   js_replace (initial_message u T I ''{{solution}}'' ''{{value}}'') ''{{topic}}'' k =
     initial_message u T I ''{{solution}}'' ''{{value}}''"
  by (simp add: pass_simps)

lemma field_keyword_pass:
  "CHR ''{'' \<notin> set u \<Longrightarrow> CHR ''{'' \<notin> set T \<Longrightarrow> CHR ''{'' \<notin> set I \<Longrightarrow>
   js_replace (initial_message u T I ''{{solution}}'' ''{{value}}'') ''{{field}}'' k =
     initial_message u T I ''{{solution}}'' ''{{value}}''"
  by (simp add: pass_simps)

text \<open>The same passes over a message that still holds the two tweet placeholders.\<close>

lemma solution_pass_literal:
  "CHR ''{'' \<notin> set u \<Longrightarrow>
   js_replace (initial_message u ''{{threadTopic}}'' ''{{specificInsight}}'' ''{{solution}}'' v)
     ''{{solution}}'' ''AI automation tools'' =
   initial_message u ''{{threadTopic}}'' ''{{specificInsight}}'' ''AI automation tools'' v"
  by (simp add: pass_simps)

lemma value_pass_literal:
  "CHR ''{'' \<notin> set u \<Longrightarrow>
   js_replace (initial_message u ''{{threadTopic}}'' ''{{specificInsight}}''
       ''AI automation tools'' ''{{value}}'') ''{{value}}'' ''some insights'' =
   initial_message u ''{{threadTopic}}'' ''{{specificInsight}}'' ''AI automation tools''
     ''some insights''"
  by (simp add: pass_simps)

lemma topic_keyword_pass_literal:
  "CHR ''{'' \<notin> set u \<Longrightarrow>
   js_replace (initial_message u ''{{threadTopic}}'' ''{{specificInsight}}'' ''{{solution}}''
       ''{{value}}'') ''{{topic}}'' k =
   initial_message u ''{{threadTopic}}'' ''{{specificInsight}}'' ''{{solution}}'' ''{{value}}''"
  by (simp add: pass_simps)

lemma field_keyword_pass_literal:
  "CHR ''{'' \<notin> set u \<Longrightarrow>
   js_replace (initial_message u ''{{threadTopic}}'' ''{{specificInsight}}'' ''{{solution}}''
       ''{{value}}'') ''{{field}}'' k =
   initial_message u ''{{threadTopic}}'' ''{{specificInsight}}'' ''{{solution}}'' ''{{value}}''"
  by (simp add: pass_simps)

text \<open>What the topic and the insight of a tweet can be.\<close>

lemma first_topic_in: "first_topic content topics \<in> insert ''tech trends'' (set topics)"
  by (induction topics) auto

lemma first_topic_fallback:
  "\<forall>topic\<in>set topics. \<not> str_includes (toLowerCase content) (toLowerCase topic) \<Longrightarrow>
   first_topic content topics = ''tech trends''"
  by (induction topics) auto

lemma extractTopicFromTweet_clean:
  "CHR ''$'' \<notin> set (extractTopicFromTweet t) \<and> CHR ''{'' \<notin> set (extractTopicFromTweet t)"
proof -
  have "\<forall>x\<in>insert ''tech trends'' (set tweet_topics). CHR ''$'' \<notin> set x \<and> CHR ''{'' \<notin> set x"
    by (simp add: tweet_topics_def)
  then show ?thesis
    unfolding extractTopicFromTweet_def using first_topic_in by blast
qed

lemma split_on_subset: "\<forall>x\<in>set (split_on sep t). set x \<subseteq> set t"
  by (induction t) (auto split: list.splits if_splits)

lemma trim_subset: "set (trim s) \<subseteq> set s"
proof -
  have "set (trim s) \<subseteq> set (rev (dropWhile is_white_space s))"
    unfolding trim_def by (metis set_rev set_dropWhileD subsetI)
  also have "\<dots> \<subseteq> set s"
    by (auto dest: set_dropWhileD)
  finally show ?thesis .
qed

lemma extractInsight_clean:
  assumes "c \<notin> set t" "c \<notin> set ''your perspective.''"
  shows "c \<notin> set (extractInsight t)"
proof (cases "filter (\<lambda>s. 10 < length (trim s)) (split_on (CHR ''.'') t)")
  case Nil
  then show ?thesis
    using assms(2) by (simp add: extractInsight_def)
next
  case (Cons s sentences)
  then have "s \<in> set (split_on (CHR ''.'') t)"
    by (metis filter_is_subset list.set_intros(1) subsetD)
  then have "set s \<subseteq> set t"
    using split_on_subset by blast
  then have "set (take 50 (trim s)) \<subseteq> set t"
    using trim_subset [of s] set_take_subset [of 50 "trim s"] by blast
  then show ?thesis
    using assms Cons by (auto simp add: extractInsight_def)
qed

lemma extractInsight_fallback:
  "\<forall>s\<in>set (split_on (CHR ''.'') t). length (trim s) \<le> 10 \<Longrightarrow>
   extractInsight t = ''your perspective''"
proof -
  assume "\<forall>s\<in>set (split_on (CHR ''.'') t). length (trim s) \<le> 10"
  then have "filter (\<lambda>s. 10 < length (trim s)) (split_on (CHR ''.'') t) = []"
    by (auto simp add: filter_empty_conv)
  then show ?thesis
    by (simp add: extractInsight_def)
qed

text \<open>The whole rendering, without and with the text of a tweet.\<close>

lemma replace_keywords_literal:
  "CHR ''{'' \<notin> set u \<Longrightarrow>
   replace_keywords lead
     (initial_message u ''{{threadTopic}}'' ''{{specificInsight}}'' ''{{solution}}'' ''{{value}}'') =
   initial_message u ''{{threadTopic}}'' ''{{specificInsight}}'' ''{{solution}}'' ''{{value}}''"
  by (simp add: replace_keywords_def topic_keyword_pass_literal field_keyword_pass_literal
        split: option.split list.split)

lemma replace_keywords_filled:
  "CHR ''{'' \<notin> set u \<Longrightarrow> CHR ''{'' \<notin> set T \<Longrightarrow> CHR ''{'' \<notin> set I \<Longrightarrow>
   replace_keywords lead (initial_message u T I ''{{solution}}'' ''{{value}}'') =
   initial_message u T I ''{{solution}}'' ''{{value}}''"
  by (simp add: replace_keywords_def topic_keyword_pass field_keyword_pass
        split: option.split list.split)

lemma render_initial_without_context:
  assumes "username lead = Some u" "u \<noteq> []" "CHR ''$'' \<notin> set u" "CHR ''{'' \<notin> set u"
    and "tweetData = None \<or>
      (\<exists>tw. tweetData = Some tw \<and> (tweet_text tw = None \<or> tweet_text tw = Some []))"
  shows "generateDMMessage ''initial'' lead tweetData =
     Inr (Some (initial_message u ''{{threadTopic}}'' ''{{specificInsight}}''
       ''AI automation tools'' ''some insights''))"
proof -
  have "replace_tweet tweetData m = m" for m
    using assms(5) by (auto simp add: replace_tweet_def)
  then show ?thesis
    using assms(1-4)
    by (simp add: generateDMMessage_def dmTemplates_def replace_username_def username_pass
          replace_keywords_literal replace_generic_def solution_pass_literal
          value_pass_literal)
qed

lemma render_initial_with_context:
  assumes "username lead = Some u" "u \<noteq> []" "CHR ''$'' \<notin> set u" "CHR ''{'' \<notin> set u"
    and "tweet_text tw = Some t" "t \<noteq> []" "CHR ''$'' \<notin> set t" "CHR ''{'' \<notin> set t"
  shows "generateDMMessage ''initial'' lead (Some tw) =
     Inr (Some (initial_message u (extractTopicFromTweet t) (extractInsight t)
       ''AI automation tools'' ''some insights''))"
proof -
  have topic: "CHR ''$'' \<notin> set (extractTopicFromTweet t)"
    "CHR ''{'' \<notin> set (extractTopicFromTweet t)"
    using extractTopicFromTweet_clean by blast+
  have insight: "CHR ''$'' \<notin> set (extractInsight t)" "CHR ''{'' \<notin> set (extractInsight t)"
    using assms(7,8) extractInsight_clean [of "CHR ''$''" t]
      extractInsight_clean [of "CHR ''{''" t]
    by simp_all
  have "replace_tweet (Some tw)
      (initial_message u ''{{threadTopic}}'' ''{{specificInsight}}'' ''{{solution}}'' ''{{value}}'') =
    initial_message u (extractTopicFromTweet t) (extractInsight t) ''{{solution}}'' ''{{value}}''"
    using assms topic insight by (simp add: replace_tweet_def topic_pass insight_pass)
  then show ?thesis
    using assms(1-4) topic insight
    by (simp add: generateDMMessage_def dmTemplates_def replace_username_def username_pass
          replace_keywords_filled replace_generic_def solution_pass value_pass)
qed

section \<open>Claims about the message renderer\<close>

text \<open>
  C7, as stated, fails: for a template id outside the catalog the method raises no
  \<open>unknown template\<close> error and returns nothing that names the failure. It returns a
  bare \<open>null\<close>; and for an id that names a property inherited from \<open>Object.prototype\<close>
  the only error is the \<open>TypeError\<close> of calling \<open>message.replace\<close> on a value that is
  not a string.
\<close>

theorem unknown_template_counterexample:
  "''welcome'' \<notin> {''initial'', ''followUp'', ''warm''} \<and>
   generateDMMessage ''welcome'' bare_lead None = Inr None \<and>
   ''toString'' \<notin> {''initial'', ''followUp'', ''warm''} \<and>
   generateDMMessage ''toString'' bare_lead None = Inl TypeError"
  by (simp add: generateDMMessage_def dmTemplates_def Object_prototype_properties_def)

text \<open>
  C7, amended. A template id outside the catalog \<open>initial\<close>, \<open>followUp\<close>, \<open>warm\<close>
  never yields a message string, empty or not; when the id is no property of the template
  table at all, \<open>generateDMMessage\<close> returns \<open>null\<close> and raises nothing. An id of the
  catalog always yields a message, so \<open>null\<close> is returned for unknown ids only.
\<close>

theorem unknown_template_yields_null:
  "(type \<notin> {''initial'', ''followUp'', ''warm''} \<longrightarrow>
      (\<forall>m. generateDMMessage type lead tweetData \<noteq> Inr (Some m)) \<and>
      (type \<notin> set Object_prototype_properties \<longrightarrow>
         generateDMMessage type lead tweetData = Inr None)) \<and>
   (type \<in> {''initial'', ''followUp'', ''warm''} \<longrightarrow>
      (\<exists>m. generateDMMessage type lead tweetData = Inr (Some m)))"
  by (simp add: generateDMMessage_def dmTemplates_def)

theorem unknown_template_yields_null_witness:
  "''welcome'' \<notin> {''initial'', ''followUp'', ''warm''} \<and>
   ''welcome'' \<notin> set Object_prototype_properties \<and>
   generateDMMessage ''welcome'' bare_lead None = Inr None \<and>
   generateDMMessage ''welcome'' bare_lead None \<noteq> Inr (Some []) \<and>
   ''warm'' \<in> {''initial'', ''followUp'', ''warm''} \<and>
   generateDMMessage ''warm'' bare_lead None \<noteq> Inr None"
proof -
  have unknown: "''welcome'' \<notin> {''initial'', ''followUp'', ''warm''}"
    by simp
  have known: "''warm'' \<in> {''initial'', ''followUp'', ''warm''}"
    by simp
  have own: "''welcome'' \<notin> set Object_prototype_properties"
    by (simp add: Object_prototype_properties_def)
  have "generateDMMessage ''welcome'' bare_lead None = Inr None"
    "generateDMMessage ''welcome'' bare_lead None \<noteq> Inr (Some [])"
    using unknown own unknown_template_yields_null [of "''welcome''" bare_lead None]
    by simp_all
  moreover have "generateDMMessage ''warm'' bare_lead None \<noteq> Inr None"
    using known unknown_template_yields_null [of "''warm''" bare_lead None]
    by auto
  ultimately show ?thesis
    using unknown known own by blast
qed

text \<open>
  C8, as stated, fails: without a context tweet the two replacements are skipped, and
  the message keeps the placeholders \<open>{{threadTopic}}\<close> and \<open>{{specificInsight}}\<close>.
\<close>

theorem placeholders_left_counterexample:
  "generateDMMessage ''initial'' bare_lead None =
     Inr (Some ''Hi sarah_tech! Loved your thread about {{threadTopic}}. Your point about {{specificInsight}} really resonated. I'm building AI automation tools and think you might find some insights interesting. Would you be open to a quick chat?'')"
proof -
  have "generateDMMessage ''initial'' bare_lead None =
     Inr (Some (initial_message ''sarah_tech'' ''{{threadTopic}}'' ''{{specificInsight}}''
       ''AI automation tools'' ''some insights''))"
    by (rule render_initial_without_context) (simp_all add: bare_lead_def)
  then show ?thesis
    by (simp add: initial_message_def)
qed

text \<open>
  C8, amended. For a lead whose handle is non-empty and free of \<open>$\<close> and \<open>{\<close>:
  rendering the \<open>initial\<close> template without a context tweet leaves
  \<open>{{threadTopic}}\<close> and \<open>{{specificInsight}}\<close> in the message as they are; with a
  context tweet whose text is non-empty (and free of \<open>$\<close> and \<open>{\<close>) they are replaced
  by the topic and the insight extracted from the text, which are the fallbacks
  \<open>tech trends\<close> when the text names none of the listed topics and \<open>your perspective\<close>
  when no part of the text between full stops has more than ten characters after trimming.
\<close>

theorem initial_dm_placeholders:
  assumes "username lead = Some u" "u \<noteq> []" "CHR ''$'' \<notin> set u" "CHR ''{'' \<notin> set u"
  shows "generateDMMessage ''initial'' lead None =
       Inr (Some (initial_message u ''{{threadTopic}}'' ''{{specificInsight}}''
         ''AI automation tools'' ''some insights'')) \<and>
     (tweet_text tw = Some t \<and> t \<noteq> [] \<and> CHR ''$'' \<notin> set t \<and> CHR ''{'' \<notin> set t \<longrightarrow>
        generateDMMessage ''initial'' lead (Some tw) =
          Inr (Some (initial_message u (extractTopicFromTweet t) (extractInsight t)
            ''AI automation tools'' ''some insights'')) \<and>
        ((\<forall>topic\<in>set tweet_topics.
            \<not> str_includes (toLowerCase t) (toLowerCase topic)) \<longrightarrow>
         extractTopicFromTweet t = ''tech trends'') \<and>
        ((\<forall>s\<in>set (split_on (CHR ''.'') t). length (trim s) \<le> 10) \<longrightarrow>
         extractInsight t = ''your perspective''))"
  using assms
  by (simp add: render_initial_without_context render_initial_with_context
        extractTopicFromTweet_def first_topic_fallback extractInsight_fallback)

theorem initial_dm_placeholders_witness:
  "generateDMMessage ''initial'' bare_lead None =
     Inr (Some (initial_message ''sarah_tech'' ''{{threadTopic}}'' ''{{specificInsight}}''
       ''AI automation tools'' ''some insights'')) \<and>
   tweet_text short_tweet = Some ''Good day. Nice!'' \<and>
   generateDMMessage ''initial'' bare_lead (Some short_tweet) =
     Inr (Some (initial_message ''sarah_tech'' ''tech trends'' ''your perspective''
       ''AI automation tools'' ''some insights''))"
proof -
  have handle: "username bare_lead = Some ''sarah_tech''" "''sarah_tech'' \<noteq> []"
    "CHR ''$'' \<notin> set ''sarah_tech''" "CHR ''{'' \<notin> set ''sarah_tech''"
    by (simp_all add: bare_lead_def)
  have context_text: "tweet_text short_tweet = Some ''Good day. Nice!'' \<and> ''Good day. Nice!'' \<noteq> [] \<and>
      CHR ''$'' \<notin> set ''Good day. Nice!'' \<and> CHR ''{'' \<notin> set ''Good day. Nice!''"
    by (simp add: short_tweet_def)
  have no_topic: "\<forall>topic\<in>set tweet_topics.
      \<not> str_includes (toLowerCase ''Good day. Nice!'') (toLowerCase topic)"
    by (simp add: tweet_topics_def toLowerCase_def toLowerCase_unit_def char_of_def)
  have no_sentence: "\<forall>s\<in>set (split_on (CHR ''.'') ''Good day. Nice!''). length (trim s) \<le> 10"
    by (simp add: trim_def is_white_space_def)
  show ?thesis
    using initial_dm_placeholders [OF handle, of short_tweet "''Good day. Nice!''"]
      context_text no_topic no_sentence
    by simp
qed

end
